theory Spec2Isabelle
  imports Main
begin

section \<open>Values shared by the modules\<close>

text \<open>
  JSON values, as far as the bridge builds or inspects them. Every object the bridge writes to
  a socket is kept as the object handed to \<^verbatim>\<open>JSON.stringify\<close>.
\<close>

datatype json =
    JNull
  | JBool bool
  | JNumber int
  | JString string
  | JArray "json list"
  | JObject "(string \<times> json) list"

text \<open>A thrown JavaScript exception: \<^verbatim>\<open>new Error(message)\<close> or a runtime \<^verbatim>\<open>TypeError\<close>.\<close>

datatype error = Error string | TypeError string

text \<open>
  The \<^verbatim>\<open>ws\<close> socket object: its \<^verbatim>\<open>readyState\<close> and the objects written to it so far.
  \<^verbatim>\<open>send\<close> transmits on an \<^verbatim>\<open>OPEN\<close> socket only; every caller in the bridge either
  checks \<^verbatim>\<open>isOpen\<close> first or wraps the call in \<^verbatim>\<open>try/catch\<close>, so a send on a socket that
  is not open leaves everything as it was.
\<close>

datatype ready_state = CONNECTING | OPEN | CLOSING | CLOSED

record WebSocket =
  readyState :: ready_state
  outbox :: "json list"

definition ws_send :: "json \<Rightarrow> WebSocket \<Rightarrow> WebSocket" where
  "ws_send msg w = (if readyState w = OPEN then w\<lparr>outbox := outbox w @ [msg]\<rparr> else w)"

text \<open>JavaScript truthiness of an optional string, and \<^verbatim>\<open>x || 0\<close> on an optional number.\<close>

definition truthy :: "string option \<Rightarrow> bool" where
  "truthy s = (case s of None \<Rightarrow> False | Some v \<Rightarrow> v \<noteq> [])"

definition or0 :: "int option \<Rightarrow> int" where
  "or0 t = (case t of None \<Rightarrow> 0 | Some v \<Rightarrow> if v = 0 then 0 else v)"

definition or_str :: "string option \<Rightarrow> string option \<Rightarrow> string option" where
  "or_str a b = (if truthy a then a else b)"

section \<open>modelConfig and aiProviders.ts\<close>

record AudioFormat =
  af_input :: string
  af_output :: string
  sampleRate :: int

text \<open>
  \<^verbatim>\<open>ModelConfig.provider\<close> is declared with the literal type \<^verbatim>\<open>'openai'\<close>, but
  \<^verbatim>\<open>createAIProvider\<close> tests it at run time, so it is a string here.
\<close>

record ModelConfig =
  provider :: string
  model :: string
  mc_name :: string
  description :: string
  audioFormat :: AudioFormat
  maxSessionDuration :: "int option"
  supportsTools :: bool
  supportsInterruption :: bool
  supportsVAD :: bool

record AIProviderConfig =
  modelConfig :: ModelConfig
  apiKey :: string
  instructions :: string
  voice :: "string option"

text \<open>
  The state of a provider object: the fields of the abstract class \<^verbatim>\<open>AIProvider\<close>
  (\<^verbatim>\<open>config\<close>, \<^verbatim>\<open>connected\<close>), the private socket of \<^verbatim>\<open>OpenAIProvider\<close>, and whether the
  optional method \<^verbatim>\<open>truncate?\<close> is defined on the object (it is on \<^verbatim>\<open>OpenAIProvider\<close>).
\<close>

record AIProvider =
  config :: AIProviderConfig
  connected :: bool
  ws :: "WebSocket option"
  truncate_defined :: bool

definition isConnected :: "AIProvider \<Rightarrow> bool" where
  "isConnected p = connected p"

definition sendMessage :: "json \<Rightarrow> AIProvider \<Rightarrow> AIProvider" where
  "sendMessage message p =
     (if ws p = None \<or> \<not> connected p then p
      else p\<lparr>ws := map_option (ws_send message) (ws p)\<rparr>)"

definition sendAudio :: "string \<Rightarrow> AIProvider \<Rightarrow> AIProvider" where
  "sendAudio audioData p =
     (if \<not> connected p \<or> ws p = None then p
      else sendMessage (JObject [(''type'', JString ''input_audio_buffer.append''),
                                 (''audio'', JString audioData)]) p)"

text \<open>\<^verbatim>\<open>interrupt\<close> has an empty body in \<^verbatim>\<open>OpenAIProvider\<close>.\<close>

definition interrupt :: "AIProvider \<Rightarrow> AIProvider" where
  "interrupt p = p"

text \<open>\<^verbatim>\<open>OpenAIProvider.truncate\<close> (the name \<open>truncate\<close> is taken by the record package).\<close>

definition truncate_item :: "string \<Rightarrow> int \<Rightarrow> AIProvider \<Rightarrow> AIProvider" where
  "truncate_item itemId audioEndMs p =
     (if \<not> connected p \<or> ws p = None then p
      else sendMessage (JObject [(''type'', JString ''conversation.item.truncate''),
                                 (''item_id'', JString itemId),
                                 (''content_index'', JNumber 0),
                                 (''audio_end_ms'', JNumber audioEndMs)]) p)"

definition close :: "AIProvider \<Rightarrow> AIProvider" where
  "close p = p\<lparr>ws := None, connected := False\<rparr>"

text \<open>
  \<^verbatim>\<open>connect\<close> stores the socket that \<^verbatim>\<open>new WebSocket(...)\<close> yields and registers listeners;
  \<^verbatim>\<open>connected\<close> becomes true only in the later \<^verbatim>\<open>open\<close> event. If the constructor throws,
  the error is rethrown (the promise rejects). The constructor's outcome is an argument.
\<close>

definition connect :: "error + WebSocket \<Rightarrow> AIProvider \<Rightarrow> error + AIProvider" where
  "connect sock p = (case sock of Inl e \<Rightarrow> Inl e | Inr w \<Rightarrow> Inr (p\<lparr>ws := Some w\<rparr>))"

definition createAIProvider :: "AIProviderConfig \<Rightarrow> error + AIProvider" where
  "createAIProvider cfg =
     (if provider (modelConfig cfg) \<noteq> ''openai''
      then Inl (Error (''Unsupported AI provider: '' @ provider (modelConfig cfg)))
      else Inr \<lparr>config = cfg, connected = False, ws = None, truncate_defined = True\<rparr>)"

section \<open>dataStorage.ts, functionHandlers.ts and callContext: the per-call stores\<close>

text \<open>
  Carts are keyed by session id, orders by order id (each order records its session id).
  Prices and dates (floating point, wall clock) are left out: the bridge never reads them.
\<close>

record CartItem =
  ci_cartItemId :: string
  ci_itemId :: string
  ci_name :: string
  ci_quantity :: int

record Cart =
  cart_sessionId :: string
  cart_items :: "CartItem list"

datatype order_status = Pending | Confirmed | Preparing | Ready | Delivered | Cancelled

record Order =
  orderId :: string
  order_sessionId :: string
  order_items :: "CartItem list"
  status :: order_status

section \<open>sessionManager.ts\<close>

record ApiKeys =
  openai :: "string option"

record Session =
  twilioConn :: "WebSocket option"
  frontendConn :: "WebSocket option"
  aiProvider :: "AIProvider option"
  streamSid :: "string option"
  saved_config :: "json option"
  lastAssistantItem :: "string option"
  responseStartTimestamp :: "int option"
  latestMediaTimestamp :: "int option"
  apiKeys :: "ApiKeys option"

text \<open>The value of \<^verbatim>\<open>session = {}\<close>.\<close>

definition empty_session :: Session where
  "empty_session = \<lparr>twilioConn = None, frontendConn = None, aiProvider = None,
     streamSid = None, saved_config = None, lastAssistantItem = None,
     responseStartTimestamp = None, latestMediaTimestamp = None, apiKeys = None\<rparr>"

text \<open>
  Calls the session manager makes on objects it does not own: the methods of the provider
  object and \<^verbatim>\<open>close()\<close> on a telephony or observer socket (with the socket as it was).
\<close>

datatype effect =
    ProviderConnect
  | ProviderSendAudio string
  | ProviderTruncate string int
  | ProviderInterrupt
  | ProviderClose
  | SocketClose WebSocket

text \<open>
  The module state the session manager reads and writes: its own \<^verbatim>\<open>session\<close>, the maps of
  dataStorage.ts (\<^verbatim>\<open>carts\<close>, \<^verbatim>\<open>orders\<close>), \<^verbatim>\<open>currentSessionId\<close> of functionHandlers.ts,
  \<^verbatim>\<open>callSidBySessionId\<close> of callContext, and the calls made so far. The getters of aiConfig
  (not part of the sources at hand) and the outcome of the next \<^verbatim>\<open>new WebSocket(...)\<close> are
  fields as well.
\<close>

record Bridge =
  session :: Session
  carts :: "string \<rightharpoonup> Cart"
  orders :: "string \<rightharpoonup> Order"
  currentSessionId :: string
  callSidBySessionId :: "string \<rightharpoonup> string"
  currentModel :: ModelConfig
  currentSystemPrompt :: string
  currentVoice :: "string option"
  newWebSocket :: "error + WebSocket"
  trace :: "effect list"

definition clearCart :: "string \<Rightarrow> Bridge \<Rightarrow> Bridge" where
  "clearCart sessionId b = b\<lparr>carts := (carts b)(sessionId := None)\<rparr>"

definition setSessionId :: "string \<Rightarrow> Bridge \<Rightarrow> Bridge" where
  "setSessionId sessionId b = b\<lparr>currentSessionId := sessionId\<rparr>"

definition linkSessionToCallSid :: "string option \<Rightarrow> string option \<Rightarrow> Bridge \<Rightarrow> Bridge" where
  "linkSessionToCallSid sessionId callSid b =
     (case (sessionId, callSid) of
        (Some sid, Some cs) \<Rightarrow>
          if sid = [] \<or> cs = [] then b
          else b\<lparr>callSidBySessionId := (callSidBySessionId b)(sid \<mapsto> cs)\<rparr>
      | _ \<Rightarrow> b)"

definition isOpen :: "WebSocket option \<Rightarrow> bool" where
  "isOpen w = (case w of None \<Rightarrow> False | Some s \<Rightarrow> readyState s = OPEN)"

definition jsonSend :: "WebSocket option \<Rightarrow> json \<Rightarrow> WebSocket option" where
  "jsonSend w obj = (if \<not> isOpen w then w else map_option (ws_send obj) w)"

definition cleanupConnection :: "WebSocket option \<Rightarrow> Bridge \<Rightarrow> Bridge" where
  "cleanupConnection w b =
     (case w of
        None \<Rightarrow> b
      | Some s \<Rightarrow> if isOpen w then b\<lparr>trace := trace b @ [SocketClose s]\<rparr> else b)"

definition cleanupAIProvider :: "Bridge \<Rightarrow> Bridge" where
  "cleanupAIProvider b =
     (let b1 = (case aiProvider (session b) of
                  Some p \<Rightarrow> b\<lparr>trace := trace b @ [ProviderClose],
                              session := (session b)\<lparr>aiProvider := None\<rparr>\<rparr>
                | None \<Rightarrow> b)
      in if twilioConn (session b1) = None \<and> frontendConn (session b1) = None
         then b1\<lparr>session := empty_session\<rparr>
         else b1)"

text \<open>The listener \<^verbatim>\<open>handleCallConnection\<close> registers for the telephony socket's \<^verbatim>\<open>close\<close>.\<close>

definition twilioClose :: "Bridge \<Rightarrow> Bridge" where
  "twilioClose b =
     (let b1 = cleanupAIProvider b;
          b2 = cleanupConnection (twilioConn (session b1)) b1;
          s3 = (session b2)\<lparr>twilioConn := None, aiProvider := None, streamSid := None,
                  lastAssistantItem := None, responseStartTimestamp := None,
                  latestMediaTimestamp := None\<rparr>
      in if frontendConn s3 = None then b2\<lparr>session := empty_session\<rparr>
         else b2\<lparr>session := s3\<rparr>)"

definition handleCallConnection :: "WebSocket \<Rightarrow> ApiKeys \<Rightarrow> Bridge \<Rightarrow> Bridge" where
  "handleCallConnection w keys b =
     (let b1 = cleanupConnection (twilioConn (session b)) b
      in b1\<lparr>session := (session b1)\<lparr>twilioConn := Some w, apiKeys := Some keys\<rparr>\<rparr>)"

text \<open>The listeners \<^verbatim>\<open>tryConnectAIProvider\<close> registers for the provider's \<^verbatim>\<open>error\<close> and \<^verbatim>\<open>close\<close>.\<close>

definition providerError :: "Bridge \<Rightarrow> Bridge" where
  "providerError b = cleanupAIProvider b"

definition providerClose :: "Bridge \<Rightarrow> Bridge" where
  "providerClose b = cleanupAIProvider b"

definition closeAllConnections :: "Bridge \<Rightarrow> Bridge" where
  "closeAllConnections b =
     (let b1 = (case twilioConn (session b) of
                  Some w \<Rightarrow> b\<lparr>trace := trace b @ [SocketClose w],
                              session := (session b)\<lparr>twilioConn := None\<rparr>\<rparr>
                | None \<Rightarrow> b);
          b2 = cleanupAIProvider b1;
          b3 = (case frontendConn (session b2) of
                  Some w \<Rightarrow> b2\<lparr>trace := trace b2 @ [SocketClose w],
                               session := (session b2)\<lparr>frontendConn := None\<rparr>\<rparr>
                | None \<Rightarrow> b2)
      in b3\<lparr>session := (session b3)\<lparr>streamSid := None, lastAssistantItem := None,
              responseStartTimestamp := None, latestMediaTimestamp := None,
              saved_config := None\<rparr>\<rparr>)"

text \<open>
  \<^verbatim>\<open>tryConnectAIProvider\<close>: the early returns, the factory's throw (caught and logged), and
  \<^verbatim>\<open>connect()\<close>, whose rejection runs \<^verbatim>\<open>cleanupAIProvider\<close>.
\<close>

definition tryConnectAIProvider :: "Bridge \<Rightarrow> Bridge" where
  "tryConnectAIProvider b =
     (let s = session b in
      if twilioConn s = None \<or> \<not> truthy (streamSid s) \<or> apiKeys s = None then b
      else if (case aiProvider s of Some p \<Rightarrow> isConnected p | None \<Rightarrow> False) then b
      else
        (case apiKeys s of
           None \<Rightarrow> b
         | Some keys \<Rightarrow>
             (case openai keys of
                None \<Rightarrow> b
              | Some key \<Rightarrow>
                  if key = [] then b
                  else
                    (case createAIProvider \<lparr>modelConfig = currentModel b, apiKey = key,
                            instructions = currentSystemPrompt b, voice = currentVoice b\<rparr> of
                       Inl e \<Rightarrow> b
                     | Inr p \<Rightarrow>
                         (case connect (newWebSocket b) p of
                            Inr p' \<Rightarrow> b\<lparr>trace := trace b @ [ProviderConnect],
                                         session := s\<lparr>aiProvider := Some p'\<rparr>\<rparr>
                          | Inl e \<Rightarrow> cleanupAIProvider
                                       (b\<lparr>trace := trace b @ [ProviderConnect],
                                          session := s\<lparr>aiProvider := Some p\<rparr>\<rparr>))))))"

definition handleAIAudio :: "string \<Rightarrow> string option \<Rightarrow> Bridge \<Rightarrow> Bridge" where
  "handleAIAudio audioData itemId b =
     (let s = session b in
      case streamSid s of
        None \<Rightarrow> b
      | Some sid \<Rightarrow>
          if twilioConn s = None \<or> sid = [] then b
          else
            (let s1 = (if responseStartTimestamp s = None
                       then s\<lparr>responseStartTimestamp := Some (or0 (latestMediaTimestamp s))\<rparr>
                       else s);
                 s2 = (if truthy itemId then s1\<lparr>lastAssistantItem := itemId\<rparr> else s1);
                 c1 = jsonSend (twilioConn s2)
                        (JObject [(''event'', JString ''media''), (''streamSid'', JString sid),
                                  (''media'', JObject [(''payload'', JString audioData)])]);
                 c2 = jsonSend c1
                        (JObject [(''event'', JString ''mark''), (''streamSid'', JString sid)])
             in b\<lparr>session := s2\<lparr>twilioConn := c2\<rparr>\<rparr>))"

text \<open>The two constants of \<^verbatim>\<open>handleTruncation\<close>, as functions of the session.\<close>

definition elapsedMs :: "Session \<Rightarrow> int" where
  "elapsedMs s = or0 (latestMediaTimestamp s) - or0 (responseStartTimestamp s)"

definition audio_end_ms :: "Session \<Rightarrow> int" where
  "audio_end_ms s = (if elapsedMs s > 0 then elapsedMs s else 0)"

definition handleTruncation :: "Bridge \<Rightarrow> Bridge" where
  "handleTruncation b =
     (let s = session b in
      case lastAssistantItem s of
        None \<Rightarrow> b
      | Some item \<Rightarrow>
          if item = [] \<or> responseStartTimestamp s = None then b
          else
            (let b1 = (case aiProvider s of
                         None \<Rightarrow> b
                       | Some p \<Rightarrow>
                           if isConnected p then
                             (if truncate_defined p \<and> item \<noteq> []
                              then b\<lparr>trace := trace b @ [ProviderTruncate item (audio_end_ms s)],
                                     session := s\<lparr>aiProvider :=
                                        Some (truncate_item item (audio_end_ms s) p)\<rparr>\<rparr>
                              else b\<lparr>trace := trace b @ [ProviderInterrupt],
                                     session := s\<lparr>aiProvider := Some (interrupt p)\<rparr>\<rparr>)
                           else b);
                 s1 = session b1;
                 s2 = (case streamSid s1 of
                         None \<Rightarrow> s1
                       | Some sid \<Rightarrow>
                           if twilioConn s1 \<noteq> None \<and> sid \<noteq> []
                           then s1\<lparr>twilioConn := jsonSend (twilioConn s1)
                                   (JObject [(''event'', JString ''clear''),
                                             (''streamSid'', JString sid)])\<rparr>
                           else s1)
             in b1\<lparr>session := s2\<lparr>lastAssistantItem := None,
                                    responseStartTimestamp := None\<rparr>\<rparr>))"

text \<open>
  A parsed telephony message, the result of \<^verbatim>\<open>parseMessage\<close> (\<^verbatim>\<open>None\<close> when
  \<^verbatim>\<open>JSON.parse\<close> failed): its \<^verbatim>\<open>event\<close> and the sub-object the handler reads, which may be
  missing.
\<close>

record StartInfo =
  start_streamSid :: "string option"
  callSid :: "string option"
  call_sid :: "string option"

record MediaInfo =
  timestamp :: "int option"
  payload :: string

datatype TwilioMessage =
    StartEvent "StartInfo option"
  | MediaEvent "MediaInfo option"
  | CloseEvent
  | OtherEvent

definition handleStart :: "StartInfo \<Rightarrow> Bridge \<Rightarrow> Bridge" where
  "handleStart st b =
     (let b1 = b\<lparr>session := (session b)\<lparr>streamSid := start_streamSid st\<rparr>\<rparr>;
          startCallSid = or_str (callSid st) (call_sid st);
          b2 = (if truthy (streamSid (session b1)) \<and> truthy startCallSid
                then linkSessionToCallSid (streamSid (session b1)) startCallSid b1
                else b1);
          b3 = b2\<lparr>session := (session b2)\<lparr>latestMediaTimestamp := Some 0,
                    lastAssistantItem := None, responseStartTimestamp := None\<rparr>\<rparr>;
          b4 = (case streamSid (session b3) of
                  None \<Rightarrow> b3
                | Some sid \<Rightarrow> if sid = [] then b3 else setSessionId sid (clearCart sid b3))
      in tryConnectAIProvider b4)"

definition handleMedia :: "MediaInfo \<Rightarrow> Bridge \<Rightarrow> Bridge" where
  "handleMedia m b =
     (let b1 = b\<lparr>session := (session b)\<lparr>latestMediaTimestamp := timestamp m\<rparr>\<rparr>
      in case aiProvider (session b1) of
           None \<Rightarrow> b1
         | Some p \<Rightarrow>
             if isConnected p
             then b1\<lparr>trace := trace b1 @ [ProviderSendAudio (payload m)],
                     session := (session b1)\<lparr>aiProvider := Some (sendAudio (payload m) p)\<rparr>\<rparr>
             else b1)"

definition handleTwilioMessage :: "TwilioMessage option \<Rightarrow> Bridge \<Rightarrow> error + Bridge" where
  "handleTwilioMessage msg b =
     (case msg of
        None \<Rightarrow> Inr b
      | Some (StartEvent None) \<Rightarrow>
          Inl (TypeError ''Cannot read properties of undefined (reading streamSid)'')
      | Some (StartEvent (Some st)) \<Rightarrow> Inr (handleStart st b)
      | Some (MediaEvent None) \<Rightarrow>
          Inl (TypeError ''Cannot read properties of undefined (reading timestamp)'')
      | Some (MediaEvent (Some m)) \<Rightarrow> Inr (handleMedia m b)
      | Some CloseEvent \<Rightarrow> Inr (closeAllConnections b)
      | Some OtherEvent \<Rightarrow> Inr b)"

section \<open>The function-call dispatcher\<close>

text \<open>
  An entry of the registry \<^verbatim>\<open>functions\<close>: the schema (of which the dispatcher reads the name)
  and the handler. A handler resolves to a string or rejects with an exception; what it does
  to the cart and order stores is its own business and is not the dispatcher's.
\<close>

record FunctionSchema =
  schema_name :: string

record FunctionHandler =
  schema :: FunctionSchema
  handler :: "json \<Rightarrow> error + string"

record FunctionCallItem =
  name :: string
  arguments :: string

record FunctionCallData = FunctionCallItem +
  call_id :: string

text \<open>\<^verbatim>\<open>err.message\<close>.\<close>

fun message :: "error \<Rightarrow> string" where
  "message (Error m) = m"
| "message (TypeError m) = m"

text \<open>
  \<^verbatim>\<open>handleFunctionCall\<close>. The built-ins \<^verbatim>\<open>JSON.parse\<close> (\<open>None\<close> when it throws) and
  \<^verbatim>\<open>JSON.stringify\<close> are arguments. The function is \<^verbatim>\<open>async\<close>: \<open>Inl\<close> is a rejected
  promise, \<open>Inr\<close> a resolved one.
\<close>

definition handleFunctionCall ::
  "(string \<Rightarrow> json option) \<Rightarrow> (json \<Rightarrow> string) \<Rightarrow> FunctionHandler list \<Rightarrow>
   'a FunctionCallItem_scheme \<Rightarrow> error + string" where
  "handleFunctionCall JSON_parse JSON_stringify functions item =
     (case find (\<lambda>f. schema_name (schema f) = name item) functions of
        None \<Rightarrow> Inl (Error (''No handler found for function: '' @ name item))
      | Some fnDef \<Rightarrow>
          (case JSON_parse (arguments item) of
             None \<Rightarrow> Inr (JSON_stringify
                      (JObject [(''error'', JString ''Invalid JSON arguments for function call.'')]))
           | Some args \<Rightarrow>
               (case handler fnDef args of
                  Inr result \<Rightarrow> Inr result
                | Inl err \<Rightarrow> Inr (JSON_stringify
                      (JObject [(''error'', JString (''Error running function '' @ name item
                                                    @ '': '' @ message err))])))))"

section \<open>Concrete inputs\<close>

text \<open>
  Inputs at which the functions above are evaluated further down: the first entry of
  \<^verbatim>\<open>AVAILABLE_MODELS\<close>, a provider as the factory builds it and the same provider once its
  socket has opened, and a bridge in the middle of a call with stream id \<^verbatim>\<open>S1\<close>, whose cart
  and order stores both hold an entry of that call.
\<close>

definition gpt_realtime :: ModelConfig where
  "gpt_realtime = \<lparr>provider = ''openai'', model = ''gpt-realtime'', mc_name = ''GPT Realtime'',
     description = ''OpenAI GPT Realtime (4o-based) interactive voice agent with low-latency streaming'',
     audioFormat = \<lparr>af_input = ''g711_ulaw'', af_output = ''g711_ulaw'', sampleRate = 8000\<rparr>,
     maxSessionDuration = None, supportsTools = True, supportsInterruption = True,
     supportsVAD = True\<rparr>"

definition call_config :: AIProviderConfig where
  "call_config = \<lparr>modelConfig = gpt_realtime, apiKey = ''sk-test'',
     instructions = ''Take the order.'', voice = Some ''ash''\<rparr>"

definition fresh_provider :: AIProvider where
  "fresh_provider = \<lparr>config = call_config, connected = False, ws = None,
     truncate_defined = True\<rparr>"

definition open_socket :: WebSocket where
  "open_socket = \<lparr>readyState = OPEN, outbox = []\<rparr>"

definition live_provider :: "bool \<Rightarrow> AIProvider" where
  "live_provider can_truncate = \<lparr>config = call_config, connected = True,
     ws = Some open_socket, truncate_defined = can_truncate\<rparr>"

definition margherita :: CartItem where
  "margherita = \<lparr>ci_cartItemId = ''c1'', ci_itemId = ''pizza_margherita'',
     ci_name = ''Margherita Pizza'', ci_quantity = 1\<rparr>"

definition order_O1 :: Order where
  "order_O1 = \<lparr>orderId = ''O1'', order_sessionId = ''S1'', order_items = [margherita],
     status = Pending\<rparr>"

definition call_bridge ::
  "AIProvider option \<Rightarrow> string option \<Rightarrow> int option \<Rightarrow> int option \<Rightarrow> Bridge" where
  "call_bridge prov item started latest =
     \<lparr>session = \<lparr>twilioConn = Some open_socket, frontendConn = None, aiProvider = prov,
          streamSid = Some ''S1'', saved_config = None, lastAssistantItem = item,
          responseStartTimestamp = started, latestMediaTimestamp = latest,
          apiKeys = Some \<lparr>openai = Some ''sk-test''\<rparr>\<rparr>,
      carts = [''S1'' \<mapsto> \<lparr>cart_sessionId = ''S1'', cart_items = [margherita]\<rparr>],
      orders = [''O1'' \<mapsto> order_O1],
      currentSessionId = ''S1'',
      callSidBySessionId = Map.empty,
      currentModel = gpt_realtime,
      currentSystemPrompt = ''Take the order.'',
      currentVoice = Some ''ash'',
      newWebSocket = Inr \<lparr>readyState = CONNECTING, outbox = []\<rparr>,
      trace = []\<rparr>"

text \<open>
  A registry with one entry whose handler always rejects, and instances of the two JSON
  built-ins that agree with JavaScript on the strings and objects used below: \<^verbatim>\<open>{}\<close> parses
  to the empty object, \<^verbatim>\<open>{not json\<close> does not parse, and an object with one string field
  without special characters is written as \<^verbatim>\<open>{"key":"value"}\<close>.
\<close>

definition failing_handler :: "json \<Rightarrow> error + string" where
  "failing_handler args = Inl (Error ''cart store unavailable'')"

definition registry :: "FunctionHandler list" where
  "registry = [\<lparr>schema = \<lparr>schema_name = ''get_cart''\<rparr>, handler = failing_handler\<rparr>]"

definition parse_sample :: "string \<Rightarrow> json option" where
  "parse_sample text = (if text = ''{}'' then Some (JObject []) else None)"

definition stringify_sample :: "json \<Rightarrow> string" where
  "stringify_sample j =
     (case j of
        JObject [(k, JString v)] \<Rightarrow>
          [CHR ''{'', CHR 0x22] @ k @ [CHR 0x22, CHR '':'', CHR 0x22] @ v @ [CHR 0x22, CHR ''}'']
      | _ \<Rightarrow> ''null'')"

section \<open>The provider factory and sendAudio\<close>

text \<open>
  C10. \<^verbatim>\<open>createAIProvider\<close> throws exactly when the configured provider name is not
  \<^verbatim>\<open>openai\<close>; otherwise it returns a provider object whose \<^verbatim>\<open>isConnected()\<close> is false.
\<close>

theorem createAIProvider_openai_only:
  "(case createAIProvider cfg of
      Inl e \<Rightarrow> provider (modelConfig cfg) \<noteq> ''openai''
    | Inr p \<Rightarrow> provider (modelConfig cfg) = ''openai'' \<and> \<not> isConnected p)"
  by (simp add: createAIProvider_def isConnected_def)

theorem createAIProvider_openai_only_witness:
  "createAIProvider call_config = Inr fresh_provider \<and> \<not> isConnected fresh_provider"
  using createAIProvider_openai_only [of call_config]
  by (simp add: createAIProvider_def call_config_def gpt_realtime_def fresh_provider_def
      isConnected_def)

text \<open>
  C9. \<^verbatim>\<open>sendAudio\<close> on a provider whose \<^verbatim>\<open>isConnected()\<close> is false does nothing, whatever
  the payload: the provider and its socket (so also what was written to the socket) stay as
  they were, and there is no path on which it raises.
\<close>

theorem sendAudio_not_connected_noop:
  "\<not> isConnected p \<Longrightarrow> sendAudio audioData p = p"
  by (simp add: sendAudio_def isConnected_def)

theorem sendAudio_not_connected_noop_witness:
  "\<not> isConnected fresh_provider \<and> sendAudio ''AAAA'' fresh_provider = fresh_provider"
proof -
  have h: "\<not> isConnected fresh_provider"
    by (simp add: isConnected_def fresh_provider_def)
  from sendAudio_not_connected_noop [OF h, of "''AAAA''"] h show ?thesis by simp
qed

section \<open>Teardown\<close>

lemma cleanupConnection_session:
  "session (cleanupConnection w b) = session b"
  by (cases w) (simp_all add: cleanupConnection_def)

lemma cleanupAIProvider_session:
  "session (cleanupAIProvider b) =
     (if twilioConn (session b) = None \<and> frontendConn (session b) = None then empty_session
      else (session b)\<lparr>aiProvider := None\<rparr>)"
  by (cases "aiProvider (session b)") (auto simp: cleanupAIProvider_def Let_def)

lemma cleanupAIProvider_quiet:
  "aiProvider (session b) = None \<Longrightarrow> twilioConn (session b) = None \<Longrightarrow>
   cleanupAIProvider b =
     (if frontendConn (session b) = None then b\<lparr>session := empty_session\<rparr> else b)"
  by (simp add: cleanupAIProvider_def)

text \<open>
  C8. While the telephony leg is attached, the provider's \<^verbatim>\<open>error\<close> and \<^verbatim>\<open>close\<close> events
  clear the provider reference and nothing else in the session: the telephony connection,
  the stream id and the observer connection are as before.
\<close>

theorem provider_failure_clears_provider_only:
  "twilioConn (session b) \<noteq> None \<Longrightarrow>
   session (providerError b) = (session b)\<lparr>aiProvider := None\<rparr> \<and>
   session (providerClose b) = (session b)\<lparr>aiProvider := None\<rparr>"
  by (auto simp: providerError_def providerClose_def cleanupAIProvider_session)

theorem provider_failure_clears_provider_only_witness:
  "twilioConn (session (call_bridge (Some (live_provider True)) None None (Some 0))) \<noteq> None \<and>
   session (providerClose (call_bridge (Some (live_provider True)) None None (Some 0))) =
     session (call_bridge None None None (Some 0)) \<and>
   session (providerError (call_bridge (Some (live_provider True)) None None (Some 0))) =
     session (call_bridge None None None (Some 0))"
proof -
  have h: "twilioConn (session (call_bridge (Some (live_provider True)) None None (Some 0))) \<noteq> None"
    by (simp add: call_bridge_def)
  from provider_failure_clears_provider_only [OF h] h show ?thesis
    by (simp add: call_bridge_def)
qed

lemma twilioClose_session:
  "session (twilioClose b) =
     (if frontendConn (session b) = None then empty_session
      else (session b)\<lparr>twilioConn := None, aiProvider := None, streamSid := None,
                  lastAssistantItem := None, responseStartTimestamp := None,
                  latestMediaTimestamp := None\<rparr>)"
  by (simp add: twilioClose_def Let_def cleanupConnection_session cleanupAIProvider_session
      empty_session_def)

lemma twilioClose_quiet:
  assumes "aiProvider (session b) = None" "twilioConn (session b) = None"
    "streamSid (session b) = None" "lastAssistantItem (session b) = None"
    "responseStartTimestamp (session b) = None" "latestMediaTimestamp (session b) = None"
  shows "twilioClose b =
     (if frontendConn (session b) = None then b\<lparr>session := empty_session\<rparr> else b)"
proof (cases "frontendConn (session b)")
  case None
  then show ?thesis using assms
    by (simp add: twilioClose_def cleanupAIProvider_quiet cleanupConnection_def Let_def
        empty_session_def)
next
  case (Some w)
  have "(session b)\<lparr>twilioConn := None, aiProvider := None, streamSid := None,
                  lastAssistantItem := None, responseStartTimestamp := None,
                  latestMediaTimestamp := None\<rparr> = session b"
    using assms by simp
  then show ?thesis using assms Some
    by (simp add: twilioClose_def cleanupAIProvider_quiet cleanupConnection_def Let_def)
qed

text \<open>
  C7. The telephony socket's close listener is idempotent: run twice in a row it leaves the
  session (and the stores, and the list of calls made on the provider and the sockets) exactly
  as one run does. The listener has no path on which it throws.
\<close>

theorem twilioClose_idempotent:
  "twilioClose (twilioClose b) = twilioClose b"
proof -
  let ?c = "twilioClose b"
  have q: "aiProvider (session ?c) = None" "twilioConn (session ?c) = None"
    "streamSid (session ?c) = None" "lastAssistantItem (session ?c) = None"
    "responseStartTimestamp (session ?c) = None" "latestMediaTimestamp (session ?c) = None"
    by (simp_all add: twilioClose_session empty_session_def)
  have e: "frontendConn (session ?c) = None \<Longrightarrow> session ?c = empty_session"
    by (simp add: twilioClose_session empty_session_def split: if_splits)
  show ?thesis
  proof (cases "frontendConn (session ?c)")
    case None
    then have "?c\<lparr>session := empty_session\<rparr> = ?c"
      using e by (metis Bridge.surjective Bridge.update_convs(1))
    then show ?thesis using twilioClose_quiet [OF q] None by simp
  next
    case (Some w)
    then show ?thesis using twilioClose_quiet [OF q] by simp
  qed
qed

theorem twilioClose_idempotent_witness:
  "twilioClose (twilioClose (call_bridge (Some (live_provider True)) (Some ''I1'') (Some 0) (Some 500))) =
   twilioClose (call_bridge (Some (live_provider True)) (Some ''I1'') (Some 0) (Some 500)) \<and>
   session (twilioClose (call_bridge (Some (live_provider True)) (Some ''I1'') (Some 0) (Some 500))) =
     empty_session"
  using twilioClose_idempotent
    [of "call_bridge (Some (live_provider True)) (Some ''I1'') (Some 0) (Some 500)"]
  by (simp add: twilioClose_session call_bridge_def)

section \<open>Barge-in\<close>

lemma handleTruncation_trace:
  assumes "lastAssistantItem (session b) = Some item" "item \<noteq> []"
    "responseStartTimestamp (session b) = Some r"
    "aiProvider (session b) = Some p" "isConnected p"
  shows "trace (handleTruncation b) = trace b @
      [if truncate_defined p then ProviderTruncate item (audio_end_ms (session b))
       else ProviderInterrupt]"
  using assms
  by (cases "streamSid (session b)") (simp_all add: handleTruncation_def Let_def)

text \<open>
  C1 fails for a speaking session that has no item id: with \<^verbatim>\<open>responseStartTimestamp\<close> set,
  \<^verbatim>\<open>lastAssistantItem\<close> absent and a connected provider without \<^verbatim>\<open>truncate\<close>,
  \<^verbatim>\<open>handleTruncation\<close> returns at its guard. Nothing is called on the provider, no frame
  is written to the telephony socket, and \<^verbatim>\<open>responseStartTimestamp\<close> stays set.
\<close>

theorem handleTruncation_without_item_counterexample:
  "handleTruncation (call_bridge (Some (live_provider False)) None (Some 1000) (Some 1450)) =
     call_bridge (Some (live_provider False)) None (Some 1000) (Some 1450) \<and>
   responseStartTimestamp
     (session (call_bridge (Some (live_provider False)) None (Some 1000) (Some 1450))) =
     Some 1000 \<and>
   trace (call_bridge (Some (live_provider False)) None (Some 1000) (Some 1450)) = []"
  by (simp add: handleTruncation_def call_bridge_def)

text \<open>
  C1, as amended. For a session with \<^verbatim>\<open>responseStartTimestamp\<close> set and a non-empty
  \<^verbatim>\<open>lastAssistantItem\<close>, processing \<^verbatim>\<open>speechStarted\<close> clears both fields; if a provider is
  attached and connected it makes exactly one call on it, \<^verbatim>\<open>truncate(item, audio_end_ms)\<close>
  when the provider defines \<^verbatim>\<open>truncate\<close> and \<^verbatim>\<open>interrupt()\<close> otherwise; and if the telephony
  socket is open and the stream id is non-empty it writes one \<^verbatim>\<open>clear\<close> frame to that socket.
\<close>

theorem handleTruncation_barge_in:
  assumes "lastAssistantItem (session b) = Some item" "item \<noteq> []"
    "responseStartTimestamp (session b) = Some r"
  shows "lastAssistantItem (session (handleTruncation b)) = None \<and>
     responseStartTimestamp (session (handleTruncation b)) = None \<and>
     (\<forall>p. aiProvider (session b) = Some p \<and> isConnected p \<longrightarrow>
        trace (handleTruncation b) = trace b @
          [if truncate_defined p then ProviderTruncate item (audio_end_ms (session b))
           else ProviderInterrupt]) \<and>
     (\<forall>w sid. twilioConn (session b) = Some w \<and> readyState w = OPEN \<and>
        streamSid (session b) = Some sid \<and> sid \<noteq> [] \<longrightarrow>
        twilioConn (session (handleTruncation b)) =
          Some (w\<lparr>outbox := outbox w @
             [JObject [(''event'', JString ''clear''), (''streamSid'', JString sid)]]\<rparr>))"
proof (intro conjI allI impI)
  show "lastAssistantItem (session (handleTruncation b)) = None"
    using assms by (simp add: handleTruncation_def Let_def)
  show "responseStartTimestamp (session (handleTruncation b)) = None"
    using assms by (simp add: handleTruncation_def Let_def)
next
  fix p assume "aiProvider (session b) = Some p \<and> isConnected p"
  then show "trace (handleTruncation b) = trace b @
          [if truncate_defined p then ProviderTruncate item (audio_end_ms (session b))
           else ProviderInterrupt]"
    using assms handleTruncation_trace by blast
next
  fix w sid
  assume h: "twilioConn (session b) = Some w \<and> readyState w = OPEN \<and>
        streamSid (session b) = Some sid \<and> sid \<noteq> []"
  show "twilioConn (session (handleTruncation b)) =
          Some (w\<lparr>outbox := outbox w @
             [JObject [(''event'', JString ''clear''), (''streamSid'', JString sid)]]\<rparr>)"
  proof (cases "aiProvider (session b)")
    case None
    then show ?thesis using assms h
      by (simp add: handleTruncation_def Let_def jsonSend_def isOpen_def ws_send_def)
  next
    case (Some p)
    then show ?thesis using assms h
      by (simp add: handleTruncation_def Let_def jsonSend_def isOpen_def ws_send_def)
  qed
qed

theorem handleTruncation_barge_in_witness:
  "lastAssistantItem (session (handleTruncation
      (call_bridge (Some (live_provider False)) (Some ''I1'') (Some 0) (Some 500)))) = None \<and>
   responseStartTimestamp (session (handleTruncation
      (call_bridge (Some (live_provider False)) (Some ''I1'') (Some 0) (Some 500)))) = None \<and>
   trace (handleTruncation
      (call_bridge (Some (live_provider False)) (Some ''I1'') (Some 0) (Some 500))) =
     [ProviderInterrupt] \<and>
   twilioConn (session (handleTruncation
      (call_bridge (Some (live_provider False)) (Some ''I1'') (Some 0) (Some 500)))) =
     Some \<lparr>readyState = OPEN, outbox =
       [JObject [(''event'', JString ''clear''), (''streamSid'', JString ''S1'')]]\<rparr>"
proof -
  let ?b = "call_bridge (Some (live_provider False)) (Some ''I1'') (Some 0) (Some 500)"
  have h: "lastAssistantItem (session ?b) = Some ''I1''" "''I1'' \<noteq> []"
    "responseStartTimestamp (session ?b) = Some 0"
    by (simp_all add: call_bridge_def)
  have p: "aiProvider (session ?b) = Some (live_provider False) \<and>
      isConnected (live_provider False)" "\<not> truncate_defined (live_provider False)"
    by (simp_all add: call_bridge_def live_provider_def isConnected_def)
  have w: "twilioConn (session ?b) = Some open_socket \<and> readyState open_socket = OPEN \<and>
      streamSid (session ?b) = Some ''S1'' \<and> ''S1'' \<noteq> []" "trace ?b = []"
    by (simp_all add: call_bridge_def open_socket_def)
  from handleTruncation_barge_in [OF h] p w show ?thesis
    by (simp add: open_socket_def)
qed

text \<open>
  C2. Whatever \<^verbatim>\<open>responseStartTimestamp\<close> and \<^verbatim>\<open>latestMediaTimestamp\<close> hold when
  \<^verbatim>\<open>speechStarted\<close> is processed, the milliseconds computed and passed to \<^verbatim>\<open>truncate\<close> are
  the difference of the two clamped at zero: 450 for 1000 and 1450, 0 for 1000 and 900.
\<close>

theorem handleTruncation_elapsed:
  assumes "lastAssistantItem (session b) = Some item" "item \<noteq> []"
    "responseStartTimestamp (session b) = Some r"
    "latestMediaTimestamp (session b) = Some l"
    "aiProvider (session b) = Some p" "isConnected p" "truncate_defined p"
  shows "audio_end_ms (session b) = max 0 (l - r) \<and>
     trace (handleTruncation b) = trace b @ [ProviderTruncate item (max 0 (l - r))]"
proof -
  have a: "audio_end_ms (session b) = max 0 (l - r)"
    using assms(3,4) by (simp add: audio_end_ms_def elapsedMs_def or0_def max_def)
  show ?thesis using handleTruncation_trace [OF assms(1,2,3,5,6)] assms(7) a by simp
qed

theorem handleTruncation_elapsed_witness:
  "trace (handleTruncation
      (call_bridge (Some (live_provider True)) (Some ''I1'') (Some 1000) (Some 1450))) =
     [ProviderTruncate ''I1'' 450] \<and>
   trace (handleTruncation
      (call_bridge (Some (live_provider True)) (Some ''I1'') (Some 1000) (Some 900))) =
     [ProviderTruncate ''I1'' 0]"
proof -
  let ?b = "\<lambda>l. call_bridge (Some (live_provider True)) (Some ''I1'') (Some 1000) (Some l)"
  have h: "lastAssistantItem (session (?b l)) = Some ''I1''" "''I1'' \<noteq> []"
    "responseStartTimestamp (session (?b l)) = Some 1000"
    "latestMediaTimestamp (session (?b l)) = Some l"
    "aiProvider (session (?b l)) = Some (live_provider True)"
    "isConnected (live_provider True)" "truncate_defined (live_provider True)" for l
    by (simp_all add: call_bridge_def live_provider_def isConnected_def)
  have t: "trace (?b l) = []" for l
    by (simp add: call_bridge_def)
  from handleTruncation_elapsed [OF h, of 1450] handleTruncation_elapsed [OF h, of 900] t
  show ?thesis by simp
qed

section \<open>Dispatching function calls\<close>

text \<open>
  C3 fails: for a name that no registered handler has, \<^verbatim>\<open>handleFunctionCall\<close> throws (its
  promise rejects); it returns no payload.
\<close>

theorem unknown_function_counterexample:
  "handleFunctionCall parse_sample stringify_sample registry
     \<lparr>name = ''does_not_exist'', arguments = ''{}''\<rparr> =
   Inl (Error ''No handler found for function: does_not_exist'')"
  by (simp add: handleFunctionCall_def registry_def)

text \<open>
  C3, as amended. For a name that no registered handler has, \<^verbatim>\<open>handleFunctionCall\<close> rejects
  with an \<^verbatim>\<open>Error\<close> whose message is \<^verbatim>\<open>No handler found for function: \<close> followed by that
  name, whatever the arguments string is.
\<close>

theorem handleFunctionCall_unknown_name:
  "find (\<lambda>f. schema_name (schema f) = name item) functions = None \<Longrightarrow>
   handleFunctionCall JSON_parse JSON_stringify functions item =
     Inl (Error (''No handler found for function: '' @ name item))"
  by (simp add: handleFunctionCall_def)

theorem handleFunctionCall_unknown_name_witness:
  "find (\<lambda>f. schema_name (schema f) =
       name \<lparr>name = ''remove_everything'', arguments = ''{}'', call_id = ''call_1''\<rparr>)
     registry = None \<and>
   handleFunctionCall parse_sample stringify_sample registry
     \<lparr>name = ''remove_everything'', arguments = ''{}'', call_id = ''call_1''\<rparr> =
     Inl (Error ''No handler found for function: remove_everything'')"
proof -
  have h: "find (\<lambda>f. schema_name (schema f) =
       name \<lparr>name = ''remove_everything'', arguments = ''{}'', call_id = ''call_1''\<rparr>)
     registry = None"
    by (simp add: registry_def)
  from handleFunctionCall_unknown_name [OF h, of parse_sample stringify_sample] h
  show ?thesis by simp
qed

text \<open>
  C4 fails for a call that has both an unregistered name and an arguments string that does not
  parse: the name is looked up first, so the call throws before the arguments are parsed.
\<close>

theorem malformed_arguments_unknown_name_counterexample:
  "parse_sample ''{not json'' = None \<and>
   handleFunctionCall parse_sample stringify_sample registry
     \<lparr>name = ''does_not_exist'', arguments = ''{not json''\<rparr> =
   Inl (Error ''No handler found for function: does_not_exist'')"
  by (simp add: handleFunctionCall_def registry_def parse_sample_def)

text \<open>
  C4, as amended. For a call whose name has a registered handler: if the arguments string does
  not parse, \<^verbatim>\<open>handleFunctionCall\<close> resolves to the serialised object
  \<^verbatim>\<open>{error: "Invalid JSON arguments for function call."}\<close>; if it parses and the handler
  throws, it resolves to the serialised object whose \<^verbatim>\<open>error\<close> field names the function and
  carries the exception's message. In neither case does it reject.
\<close>

theorem handleFunctionCall_error_payloads:
  assumes "find (\<lambda>f. schema_name (schema f) = name item) functions = Some fnDef"
  shows "(JSON_parse (arguments item) = None \<longrightarrow>
      handleFunctionCall JSON_parse JSON_stringify functions item =
        Inr (JSON_stringify
          (JObject [(''error'', JString ''Invalid JSON arguments for function call.'')]))) \<and>
    (\<forall>args err. JSON_parse (arguments item) = Some args \<and> handler fnDef args = Inl err \<longrightarrow>
      handleFunctionCall JSON_parse JSON_stringify functions item =
        Inr (JSON_stringify
          (JObject [(''error'', JString (''Error running function '' @ name item @ '': ''
                                         @ message err))])))"
  using assms by (simp add: handleFunctionCall_def)

theorem handleFunctionCall_error_payloads_witness:
  "handleFunctionCall parse_sample stringify_sample registry
     \<lparr>name = ''get_cart'', arguments = ''{not json''\<rparr> =
     Inr (stringify_sample
       (JObject [(''error'', JString ''Invalid JSON arguments for function call.'')])) \<and>
   handleFunctionCall parse_sample stringify_sample registry
     \<lparr>name = ''get_cart'', arguments = ''{}''\<rparr> =
     Inr (stringify_sample
       (JObject [(''error'',
          JString ''Error running function get_cart: cart store unavailable'')]))"
proof -
  have f1: "find (\<lambda>f. schema_name (schema f) =
        name \<lparr>name = ''get_cart'', arguments = ''{not json''\<rparr>) registry = Some (hd registry)"
    by (simp add: registry_def)
  have f2: "find (\<lambda>f. schema_name (schema f) =
        name \<lparr>name = ''get_cart'', arguments = ''{}''\<rparr>) registry = Some (hd registry)"
    by (simp add: registry_def)
  have p1: "parse_sample ''{not json'' = None" by (simp add: parse_sample_def)
  have p2: "parse_sample ''{}'' = Some (JObject [])" by (simp add: parse_sample_def)
  have t: "handler (hd registry) (JObject []) = Inl (Error ''cart store unavailable'')"
    by (simp add: registry_def failing_handler_def)
  from handleFunctionCall_error_payloads [OF f1, of parse_sample stringify_sample]
       handleFunctionCall_error_payloads [OF f2, of parse_sample stringify_sample]
       p1 p2 t
  show ?thesis by simp
qed

section \<open>Telephony start and media events\<close>

lemma cleanupAIProvider_stores:
  "orders (cleanupAIProvider b) = orders b" "carts (cleanupAIProvider b) = carts b"
  "currentSessionId (cleanupAIProvider b) = currentSessionId b"
  by (cases "aiProvider (session b)"; simp add: cleanupAIProvider_def Let_def)+

lemma tryConnectAIProvider_stores:
  "orders (tryConnectAIProvider b) = orders b" "carts (tryConnectAIProvider b) = carts b"
  "currentSessionId (tryConnectAIProvider b) = currentSessionId b"
  by (simp_all add: tryConnectAIProvider_def Let_def cleanupAIProvider_stores
      split: option.splits sum.splits)

lemma linkSessionToCallSid_stores:
  "orders (linkSessionToCallSid a c b) = orders b" "carts (linkSessionToCallSid a c b) = carts b"
  by (simp_all add: linkSessionToCallSid_def split: option.splits)

lemma linkSessionToCallSid_session:
  "session (linkSessionToCallSid a c b) = session b"
  by (simp add: linkSessionToCallSid_def split: option.splits)

lemma handleStart_orders: "orders (handleStart st b) = orders b"
  by (simp add: handleStart_def Let_def tryConnectAIProvider_stores linkSessionToCallSid_stores
      setSessionId_def clearCart_def split: option.splits)

lemma handleStart_carts:
  "start_streamSid st = Some sid \<Longrightarrow> sid \<noteq> [] \<Longrightarrow>
   carts (handleStart st b) = (carts b)(sid := None)"
  by (simp add: handleStart_def Let_def tryConnectAIProvider_stores linkSessionToCallSid_stores
      linkSessionToCallSid_session setSessionId_def clearCart_def)

text \<open>
  C5 says that a \<^verbatim>\<open>start\<close> event resets the cart store and the order store for the new
  stream id. The handler, whose comment and log line both speak of cart and order data, clears
  the cart only: after \<^verbatim>\<open>start\<close> with stream id \<^verbatim>\<open>S1\<close> the cart of \<^verbatim>\<open>S1\<close> is gone and the
  order recorded for session \<^verbatim>\<open>S1\<close> is still in the order store.
\<close>

theorem start_leaves_order_store:
  "handleTwilioMessage (Some (StartEvent (Some \<lparr>start_streamSid = Some ''S1'',
       callSid = Some ''CA1'', call_sid = None\<rparr>))) (call_bridge None None None None) =
     Inr (handleStart \<lparr>start_streamSid = Some ''S1'', callSid = Some ''CA1'', call_sid = None\<rparr>
            (call_bridge None None None None)) \<and>
   carts (call_bridge None None None None) ''S1'' \<noteq> None \<and>
   carts (handleStart \<lparr>start_streamSid = Some ''S1'', callSid = Some ''CA1'', call_sid = None\<rparr>
            (call_bridge None None None None)) ''S1'' = None \<and>
   orders (handleStart \<lparr>start_streamSid = Some ''S1'', callSid = Some ''CA1'', call_sid = None\<rparr>
            (call_bridge None None None None)) ''O1'' = Some order_O1 \<and>
   order_sessionId order_O1 = ''S1''"
  by (simp add: handleTwilioMessage_def handleStart_orders handleStart_carts
      call_bridge_def order_O1_def)

text \<open>
  C6 fails: a \<^verbatim>\<open>media\<close> frame with timestamp 900, arriving when \<^verbatim>\<open>latestMediaTimestamp\<close> is
  1000, sets it back to 900.
\<close>

theorem media_timestamp_regresses_counterexample:
  "latestMediaTimestamp (session (call_bridge None None None (Some 1000))) = Some 1000 \<and>
   handleTwilioMessage (Some (MediaEvent (Some \<lparr>timestamp = Some 900, payload = ''AAAA''\<rparr>)))
     (call_bridge None None None (Some 1000)) =
     Inr (call_bridge None None None (Some 900))"
  by (simp add: handleTwilioMessage_def handleMedia_def call_bridge_def)

text \<open>
  C6, as amended. Processing a \<^verbatim>\<open>media\<close> event sets \<^verbatim>\<open>latestMediaTimestamp\<close> to the
  timestamp of that frame, whatever it held before.
\<close>

theorem media_sets_latest_timestamp:
  "handleTwilioMessage (Some (MediaEvent (Some m))) b = Inr b' \<Longrightarrow>
   latestMediaTimestamp (session b') = timestamp m"
  by (auto simp: handleTwilioMessage_def handleMedia_def Let_def split: option.splits if_splits)

theorem media_sets_latest_timestamp_witness:
  "handleTwilioMessage (Some (MediaEvent (Some \<lparr>timestamp = Some 1450, payload = ''AAAA''\<rparr>)))
     (call_bridge None None None (Some 1000)) = Inr (call_bridge None None None (Some 1450)) \<and>
   latestMediaTimestamp (session (call_bridge None None None (Some 1450))) =
     timestamp \<lparr>timestamp = Some 1450, payload = ''AAAA''\<rparr>"
proof -
  have h: "handleTwilioMessage
       (Some (MediaEvent (Some \<lparr>timestamp = Some 1450, payload = ''AAAA''\<rparr>)))
       (call_bridge None None None (Some 1000)) = Inr (call_bridge None None None (Some 1450))"
    by (simp add: handleTwilioMessage_def handleMedia_def call_bridge_def)
  from media_sets_latest_timestamp [OF h] h show ?thesis by simp
qed

end
